theory Spec2Isabelle
  imports Complex_Main "HOL-Library.Char_ord" "HOL-Library.List_Lexorder" "HOL-Library.Multiset"
begin

section \<open>Gnoke Gas: the persistence engine, the data access layer and the legacy importer\<close>

text \<open>
  The three modules of \<^verbatim>\<open>src/scripts/migrate.js\<close> are embedded in the order in which
  they depend on each other: \<^verbatim>\<open>DB\<close> (db-core.js), \<^verbatim>\<open>DBSales\<close> (db-sales.js) and
  \<^verbatim>\<open>Migrate\<close> (migrate.js).

  Conventions of the embedding.
  \<^item> JavaScript numbers are exact rationals (\<^typ>\<open>rat\<close>); \<^verbatim>\<open>NaN\<close> is \<open>None\<close> where a
    builtin can produce it. Rounding and the infinities of IEEE doubles are outside the model.
  \<^item> Strings are byte strings; the order on strings is the lexicographic order on bytes.
  \<^item> Every \<^verbatim>\<open>async\<close> function is awaited to completion before the next call starts, so a
    function is a state transformer that returns either an error or a value, together
    with the state it leaves behind.
  \<^item> An SQL write statement with its parameters bound is the function it denotes on the
    tables; a failing statement leaves the tables as they were (SQLite's default
    \<^verbatim>\<open>ABORT\<close> conflict resolution).
\<close>

subsection \<open>Tables\<close>

text \<open>
  Modelled from the spec: the table declarations live in the seed image
  \<^verbatim>\<open>data/gas.db\<close>, which is not part of the sources. Section 6 of the specification
  gives \<^verbatim>\<open>days(id, date UNIQUE, opening_stock, unit_price)\<close>,
  \<^verbatim>\<open>sales(id, day_id->days, seq, kg, price, comments)\<close> with cascading delete and
  \<^verbatim>\<open>settings(key UNIQUE, value)\<close>.
\<close>

record day_row =
  d_id :: nat
  d_date :: string
  opening_stock :: rat
  unit_price :: rat

record sale_row =
  s_id :: nat
  day_id :: nat
  seq :: int
  kg :: rat
  price :: rat
  comments :: string

record database =
  catalog :: "string list"
  days :: "day_row list"
  sales :: "sale_row list"
  settings :: "(string \<times> string) list"

datatype error =
    NotInitialised
  | SqlError string
  | IDBError
  | SeedFetchFailed

text \<open>
  A write statement maps the tables to an error, or to the new tables together with the
  number of rows it modified and, for an insert that added a row, the new rowid.
\<close>

type_synonym stmt = "database \<Rightarrow> error + (database \<times> nat \<times> nat option)"

subsection \<open>The sql.js connection\<close>

record connection =
  content :: database
  tx_saved :: "database option"
  last_rowid :: nat
  rows_modified :: nat

definition open_db :: "database \<Rightarrow> connection" where
  "open_db img = \<lparr>content = img, tx_saved = None, last_rowid = 0, rows_modified = 0\<rparr>"

definition conn_run :: "stmt \<Rightarrow> connection \<Rightarrow> error + connection" where
  "conn_run st c =
     (case st (content c) of
        Inl e \<Rightarrow> Inl e
      | Inr (d, n, rid) \<Rightarrow>
          Inr (c\<lparr>content := d, rows_modified := n,
                 last_rowid := (case rid of None \<Rightarrow> last_rowid c | Some r \<Rightarrow> r)\<rparr>))"

definition conn_begin :: "connection \<Rightarrow> error + connection" where
  "conn_begin c =
     (case tx_saved c of
        Some _ \<Rightarrow> Inl (SqlError ''cannot start a transaction within a transaction'')
      | None \<Rightarrow> Inr (c\<lparr>tx_saved := Some (content c)\<rparr>))"

definition conn_commit :: "connection \<Rightarrow> error + connection" where
  "conn_commit c =
     (case tx_saved c of
        None \<Rightarrow> Inl (SqlError ''cannot commit - no transaction is active'')
      | Some _ \<Rightarrow> Inr (c\<lparr>tx_saved := None\<rparr>))"

definition conn_rollback :: "connection \<Rightarrow> error + connection" where
  "conn_rollback c =
     (case tx_saved c of
        None \<Rightarrow> Inl (SqlError ''cannot rollback - no transaction is active'')
      | Some d \<Rightarrow> Inr (c\<lparr>content := d, tx_saved := None\<rparr>))"

subsection \<open>db-core.js: the engine state\<close>

text \<open>
  The module variables \<^verbatim>\<open>_db\<close> and \<^verbatim>\<open>_dirty\<close>, the blob stored in IndexedDB under
  \<^verbatim>\<open>IDB_KEY\<close>, and the environment: \<open>idb_outcomes\<close> lists whether each of the coming
  put requests succeeds (a request beyond the list succeeds). \<open>trace\<close> is a ghost field:
  it logs every assignment \<^verbatim>\<open>_dirty = true\<close> and every put request with its outcome.
\<close>

datatype event = MarkDirty | IdbPut database bool

record engine =
  db :: "connection option"
  dirty :: bool
  idb :: "database option"
  idb_outcomes :: "bool list"
  trace :: "event list"

type_synonym 'a result = "(error + 'a) \<times> engine"

definition REQUIRED_TABLES :: "string list" where
  "REQUIRED_TABLES = [''company'', ''days'', ''sales'', ''settings'']"

definition getExistingTables :: "database \<Rightarrow> string list" where
  "getExistingTables d = catalog d"

definition isSchemaCurrent :: "database \<Rightarrow> bool" where
  "isSchemaCurrent d =
     (let existing = getExistingTables d in list_all (\<lambda>t. t \<in> set existing) REQUIRED_TABLES)"

definition saveToIDB :: "database \<Rightarrow> engine \<Rightarrow> unit result" where
  "saveToIDB img s =
     (case idb_outcomes s of
        [] \<Rightarrow> (Inr (), s\<lparr>idb := Some img, trace := trace s @ [IdbPut img True]\<rparr>)
      | ok # rest \<Rightarrow>
          if ok
          then (Inr (), s\<lparr>idb := Some img, idb_outcomes := rest,
                           trace := trace s @ [IdbPut img True]\<rparr>)
          else (Inl IDBError, s\<lparr>idb_outcomes := rest, trace := trace s @ [IdbPut img False]\<rparr>))"

definition persist :: "engine \<Rightarrow> unit result" where
  "persist s =
     (case db s of
        None \<Rightarrow> (Inr (), s)
      | Some c \<Rightarrow>
          if \<not> dirty s then (Inr (), s)
          else (case saveToIDB (content c) s of
                  (Inl e, s') \<Rightarrow> (Inl e, s')
                | (Inr _, s') \<Rightarrow> (Inr (), s'\<lparr>dirty := False\<rparr>)))"

text \<open>
  \<^verbatim>\<open>init\<close>: the seed argument is what \<^verbatim>\<open>fetch(DB_URL)\<close> delivers, \<open>None\<close> when the
  fetch fails. The saved blob is read from \<open>idb\<close>.
\<close>

definition load_seed :: "database option \<Rightarrow> engine \<Rightarrow> unit result" where
  "load_seed seed s =
     (case seed of
        None \<Rightarrow> (Inl SeedFetchFailed, s)
      | Some img \<Rightarrow> saveToIDB img (s\<lparr>db := Some (open_db img)\<rparr>))"

definition init :: "database option \<Rightarrow> engine \<Rightarrow> unit result" where
  "init seed s =
     (case db s of
        Some _ \<Rightarrow> (Inr (), s)
      | None \<Rightarrow>
          (case idb s of
             Some saved \<Rightarrow>
               if isSchemaCurrent saved then (Inr (), s\<lparr>db := Some (open_db saved)\<rparr>)
               else load_seed seed s
           | None \<Rightarrow> load_seed seed s))"

definition query :: "(database \<Rightarrow> 'a) \<Rightarrow> engine \<Rightarrow> error + 'a" where
  "query q s = (case db s of None \<Rightarrow> Inl NotInitialised | Some c \<Rightarrow> Inr (q (content c)))"

record run_result =
  changes :: nat
  lastInsertRowid :: nat

definition run :: "stmt \<Rightarrow> engine \<Rightarrow> run_result result" where
  "run st s =
     (case db s of
        None \<Rightarrow> (Inl NotInitialised, s)
      | Some c \<Rightarrow>
          (case conn_run st c of
             Inl e \<Rightarrow> (Inl e, s)
           | Inr c' \<Rightarrow>
               (let s1 = s\<lparr>db := Some c', dirty := True, trace := trace s @ [MarkDirty]\<rparr>;
                    lastId = last_rowid c';
                    chg = rows_modified c'
                in case persist s1 of
                     (Inl e, s2) \<Rightarrow> (Inl e, s2)
                   | (Inr _, s2) \<Rightarrow> (Inr \<lparr>changes = chg, lastInsertRowid = lastId\<rparr>, s2))))"

text \<open>
  The callback handed to \<^verbatim>\<open>transaction\<close> is a script: it returns, throws, issues a
  write through the helper \<^verbatim>\<open>_runInTx\<close> and goes on with its result, or reads the
  tables and goes on with what it read.
\<close>

datatype tx_script =
    TxReturn
  | TxThrow error
  | TxRun stmt "run_result \<Rightarrow> tx_script"
  | TxQuery "database \<Rightarrow> tx_script"

definition runInTx :: "stmt \<Rightarrow> connection \<Rightarrow> error + (run_result \<times> connection)" where
  "runInTx st c =
     (case conn_run st c of
        Inl e \<Rightarrow> Inl e
      | Inr c' \<Rightarrow> Inr (\<lparr>changes = rows_modified c', lastInsertRowid = last_rowid c'\<rparr>, c'))"

primrec run_script :: "tx_script \<Rightarrow> connection \<Rightarrow> (error + unit) \<times> connection" where
  "run_script TxReturn c = (Inr (), c)"
| "run_script (TxThrow e) c = (Inl e, c)"
| "run_script (TxRun st k) c =
     (case runInTx st c of
        Inl e \<Rightarrow> (Inl e, c)
      | Inr (r, c') \<Rightarrow> run_script (k r) c')"
| "run_script (TxQuery q) c = run_script (q (content c)) c"

text \<open>
  The \<^verbatim>\<open>catch\<close> block of \<^verbatim>\<open>transaction\<close>: roll back, then rethrow; a failing
  rollback throws its own error instead. The block runs only after the check of \<^verbatim>\<open>_db\<close>
  at the head of \<^verbatim>\<open>transaction\<close>, so its first case is never taken.
\<close>

definition tx_catch :: "error \<Rightarrow> engine \<Rightarrow> unit result" where
  "tx_catch err s =
     (case db s of
        None \<Rightarrow> (Inl NotInitialised, s)
      | Some c \<Rightarrow>
          (case conn_rollback c of
             Inl e \<Rightarrow> (Inl e, s)
           | Inr c' \<Rightarrow> (Inl err, s\<lparr>db := Some c'\<rparr>)))"

definition transaction :: "tx_script \<Rightarrow> engine \<Rightarrow> unit result" where
  "transaction fn s =
     (case db s of
        None \<Rightarrow> (Inl NotInitialised, s)
      | Some c \<Rightarrow>
          (case conn_begin c of
             Inl e \<Rightarrow> tx_catch e s
           | Inr c1 \<Rightarrow>
               (case run_script fn c1 of
                  (Inl e, c2) \<Rightarrow> tx_catch e (s\<lparr>db := Some c2\<rparr>)
                | (Inr _, c2) \<Rightarrow>
                    (case conn_commit c2 of
                       Inl e \<Rightarrow> tx_catch e (s\<lparr>db := Some c2\<rparr>)
                     | Inr c3 \<Rightarrow>
                         (case persist (s\<lparr>db := Some c3, dirty := True,
                                          trace := trace s @ [MarkDirty]\<rparr>) of
                            (Inl e, s4) \<Rightarrow> tx_catch e s4
                          | (Inr _, s4) \<Rightarrow> (Inr (), s4))))))"

text \<open>A callback that issues a fixed sequence of writes, one after the other.\<close>

primrec tx_ops :: "stmt list \<Rightarrow> tx_script" where
  "tx_ops [] = TxReturn"
| "tx_ops (st # sts) = TxRun st (\<lambda>_. tx_ops sts)"

text \<open>What a sequence of writes does to the tables when none of them fails.\<close>

primrec apply_ops :: "stmt list \<Rightarrow> database \<Rightarrow> error + database" where
  "apply_ops [] d = Inr d"
| "apply_ops (st # sts) d =
     (case st d of Inl e \<Rightarrow> Inl e | Inr (d', _, _) \<Rightarrow> apply_ops sts d')"


text \<open>Ghost observers: the completed puts in a stretch of the trace, and \<open>n\<close> calls of
  \<^verbatim>\<open>persist\<close> in a row with nothing in between.\<close>

definition puts_ok :: "event list \<Rightarrow> nat" where
  "puts_ok evs = length (filter (\<lambda>e. case e of IdbPut _ ok \<Rightarrow> ok | MarkDirty \<Rightarrow> False) evs)"

primrec persist_n :: "nat \<Rightarrow> engine \<Rightarrow> engine" where
  "persist_n 0 s = s"
| "persist_n (Suc n) s = persist_n n (snd (persist s))"

text \<open>Sequencing of two steps: the second runs only when the first did not throw.\<close>

definition bnd :: "(engine \<Rightarrow> 'a result) \<Rightarrow> ('a \<Rightarrow> engine \<Rightarrow> 'b result) \<Rightarrow> engine \<Rightarrow> 'b result" where
  "bnd m f s = (case m s of (Inl e, s') \<Rightarrow> (Inl e, s') | (Inr x, s') \<Rightarrow> f x s')"

text \<open>A read through \<^verbatim>\<open>DB.query\<close> as a step: the state stays as it is.\<close>

definition reading :: "(database \<Rightarrow> 'a) \<Rightarrow> engine \<Rightarrow> 'a result" where
  "reading q s = (query q s, s)"

text \<open>
  \<^verbatim>\<open>DB.query\<close> handed a write statement: \<^verbatim>\<open>_db.exec\<close> executes it, the dirty flag is
  not touched and nothing is persisted.
\<close>

definition query_exec :: "stmt \<Rightarrow> engine \<Rightarrow> unit result" where
  "query_exec st s =
     (case db s of
        None \<Rightarrow> (Inl NotInitialised, s)
      | Some c \<Rightarrow>
          (case conn_run st c of
             Inl e \<Rightarrow> (Inl e, s)
           | Inr c' \<Rightarrow> (Inr (), s\<lparr>db := Some c'\<rparr>)))"

subsection \<open>The SQL statements of db-sales.js and migrate.js\<close>

text \<open>
  Modelled from the spec: the constraints that decide whether a statement fails
  (\<^verbatim>\<open>days.date UNIQUE\<close>, \<^verbatim>\<open>settings.key UNIQUE\<close>, the foreign key
  \<^verbatim>\<open>sales.day_id -> days\<close>) are those of section 6 of the specification. A new row
  gets the rowid after the largest one in its table.
\<close>

definition next_rowid :: "nat list \<Rightarrow> nat" where
  "next_rowid ids = Suc (fold max ids 0)"

definition insert_day :: "string \<Rightarrow> rat \<Rightarrow> rat \<Rightarrow> stmt" where
  "insert_day dt os up d =
     (if dt \<in> set (map d_date (days d)) then Inl (SqlError ''UNIQUE constraint failed: days.date'')
      else (let i = next_rowid (map d_id (days d))
            in Inr (d\<lparr>days := days d @ [\<lparr>d_id = i, d_date = dt, opening_stock = os, unit_price = up\<rparr>]\<rparr>,
                    1, Some i)))"

definition insert_or_ignore_day :: "string \<Rightarrow> rat \<Rightarrow> rat \<Rightarrow> stmt" where
  "insert_or_ignore_day dt os up d =
     (if dt \<in> set (map d_date (days d)) then Inr (d, 0, None)
      else (let i = next_rowid (map d_id (days d))
            in Inr (d\<lparr>days := days d @ [\<lparr>d_id = i, d_date = dt, opening_stock = os, unit_price = up\<rparr>]\<rparr>,
                    1, Some i)))"

definition insert_sale :: "nat \<Rightarrow> int \<Rightarrow> rat \<Rightarrow> rat \<Rightarrow> string \<Rightarrow> stmt" where
  "insert_sale did sq k p cm d =
     (if did \<notin> set (map d_id (days d)) then Inl (SqlError ''FOREIGN KEY constraint failed'')
      else (let i = next_rowid (map s_id (sales d))
            in Inr (d\<lparr>sales := sales d @
                       [\<lparr>s_id = i, day_id = did, seq = sq, kg = k, price = p, comments = cm\<rparr>]\<rparr>,
                    1, Some i)))"




text \<open>The settings table declares no id column; the rowid of a new row is its position.\<close>

definition upsert_setting :: "string \<Rightarrow> string \<Rightarrow> stmt" where
  "upsert_setting k v d =
     (if k \<in> set (map fst (settings d))
      then Inr (d\<lparr>settings := map (\<lambda>(k', v'). if k' = k then (k', v) else (k', v')) (settings d)\<rparr>,
                1, None)
      else Inr (d\<lparr>settings := settings d @ [(k, v)]\<rparr>, 1, Some (Suc (length (settings d)))))"

text \<open>The SELECT statements, as functions of the tables.\<close>

definition select_day_by_date :: "string \<Rightarrow> database \<Rightarrow> day_row option" where
  "select_day_by_date dt d = find (\<lambda>r. d_date r = dt) (days d)"

definition select_sales_of_day :: "nat \<Rightarrow> database \<Rightarrow> sale_row list" where
  "select_sales_of_day did d = sort_key seq (filter (\<lambda>r. day_id r = did) (sales d))"





definition select_setting :: "string \<Rightarrow> database \<Rightarrow> string option" where
  "select_setting k d = map_of (settings d) k"

subsection \<open>db-sales.js\<close>


definition getDay :: "string \<Rightarrow> engine \<Rightarrow> day_row option result" where
  "getDay date = reading (select_day_by_date date)"

definition getSalesForDay :: "nat \<Rightarrow> engine \<Rightarrow> sale_row list result" where
  "getSalesForDay dayId = reading (select_sales_of_day dayId)"





definition getSetting :: "string \<Rightarrow> engine \<Rightarrow> string option result" where
  "getSetting key = reading (select_setting key)"

definition saveSetting :: "string \<Rightarrow> string \<Rightarrow> engine \<Rightarrow> unit result" where
  "saveSetting key v = bnd (run (upsert_setting key v)) (\<lambda>_ s. (Inr (), s))"


subsection \<open>migrate.js: strings and builtins\<close>

text \<open>
  \<^verbatim>\<open>String.prototype.split\<close> with a one-character separator, \<^verbatim>\<open>trim\<close> (the ASCII
  white space of a byte string), \<^verbatim>\<open>startsWith\<close>, and \<^verbatim>\<open>replace(p, '')\<close> for a
  non-empty pattern, which drops the first occurrence of \<open>p\<close>.
\<close>

primrec js_split :: "char \<Rightarrow> string \<Rightarrow> string list" where
  "js_split sep [] = [[]]"
| "js_split sep (c # cs) =
     (if c = sep then [] # js_split sep cs
      else (case js_split sep cs of
              [] \<Rightarrow> [[c]]
            | w # ws \<Rightarrow> (c # w) # ws))"

definition is_space :: "char \<Rightarrow> bool" where
  "is_space c = (c \<in> set [CHR 0x09, CHR 0x0A, CHR 0x0B, CHR 0x0C, CHR 0x0D, CHR 0x20])"

definition js_trim :: "string \<Rightarrow> string" where
  "js_trim s = rev (dropWhile is_space (rev (dropWhile is_space s)))"

definition startsWith :: "string \<Rightarrow> string \<Rightarrow> bool" where
  "startsWith s p = (take (length p) s = p)"

primrec remove_first :: "string \<Rightarrow> string \<Rightarrow> string" where
  "remove_first p [] = []"
| "remove_first p (c # cs) =
     (if startsWith (c # cs) p then drop (length p) (c # cs) else c # remove_first p cs)"

text \<open>
  The builtins of the JavaScript engine are parameters: \<^verbatim>\<open>parseInt\<close> and
  \<^verbatim>\<open>parseFloat\<close> (\<open>None\<close> is \<^verbatim>\<open>NaN\<close>), and \<^verbatim>\<open>Array.prototype.sort\<close> with a
  comparator that returns a number or \<^verbatim>\<open>NaN\<close>.
\<close>

record builtins =
  parseInt :: "string \<Rightarrow> int option"
  parseFloat :: "string \<Rightarrow> rat option"
  array_sort :: "(string \<Rightarrow> string \<Rightarrow> int option) \<Rightarrow> string list \<Rightarrow> string list"

text \<open>\<^verbatim>\<open>x || d\<close> for a number \<open>x\<close>: \<^verbatim>\<open>NaN\<close> and \<open>0\<close> are falsy.\<close>

definition int_or :: "int option \<Rightarrow> int \<Rightarrow> int" where
  "int_or x d = (case x of None \<Rightarrow> d | Some v \<Rightarrow> if v = 0 then d else v)"

definition num_or :: "rat option \<Rightarrow> rat \<Rightarrow> rat" where
  "num_or x d = (case x of None \<Rightarrow> d | Some v \<Rightarrow> if v = 0 then d else v)"

text \<open>\<^verbatim>\<open>parseFloat\<close> of a value that may be \<^verbatim>\<open>undefined\<close>, which parses to \<^verbatim>\<open>NaN\<close>.\<close>

definition parseFloat_opt :: "builtins \<Rightarrow> string option \<Rightarrow> rat option" where
  "parseFloat_opt B x = (case x of None \<Rightarrow> None | Some t \<Rightarrow> parseFloat B t)"

definition at_index :: "'a list \<Rightarrow> nat \<Rightarrow> 'a option" where
  "at_index xs i = (if i < length xs then Some (xs ! i) else None)"

subsection \<open>migrate.js: the legacy store\<close>

record chunk_row =
  gas :: "string option"
  chunk_price :: "string option"
  chunk_comments :: string

record sales_meta =
  meta_unitPrice :: "string option"
  meta_newStock :: "string option"

datatype legacy_value =
    LString string
  | LChunk "chunk_row list"
  | LMeta sales_meta
  | LOther

text \<open>\<open>store_keys\<close> is \<open>None\<close> when \<^verbatim>\<open>store.keys()\<close> rejects.\<close>

record legacy_store =
  store_keys :: "string list option"
  store_items :: "(string \<times> legacy_value) list"

definition getItem :: "legacy_store \<Rightarrow> string \<Rightarrow> legacy_value option" where
  "getItem store key = map_of (store_items store) key"

subsection \<open>migrate.js: parsing one CSV string\<close>

record parsed_sale =
  p_seq :: int
  p_kg :: rat
  p_price :: rat
  p_comments :: string

record parsed_csv =
  unitPrice :: rat
  openingStock :: rat
  parsed_sales :: "parsed_sale list"

text \<open>The variables of the loop of \<^verbatim>\<open>_parseCSV\<close>, and one round of it.\<close>

record csv_vars =
  v_sales :: "parsed_sale list"
  v_unitPrice :: rat
  v_openStock :: rat
  v_firstRow :: bool

definition parse_line :: "builtins \<Rightarrow> string \<Rightarrow> csv_vars \<Rightarrow> csv_vars" where
  "parse_line B line v =
     (let cols = js_split CHR '','' line
      in if length cols < 4 then v
         else
           (let sq = int_or (parseInt B (cols ! 0)) 0;
                k = num_or (parseFloat B (cols ! 1)) 0;
                p = num_or (parseFloat B (cols ! 2)) 0;
                cm = js_trim (cols ! 3);
                unit = num_or (parseFloat_opt B (at_index cols 4)) 0;
                balance = num_or (parseFloat_opt B (at_index cols 5)) 0;
                v1 = (if unit > 0 then v\<lparr>v_unitPrice := unit\<rparr> else v);
                v2 = (if v_firstRow v1 \<and> k > 0
                      then v1\<lparr>v_openStock := balance + k, v_firstRow := False\<rparr> else v1)
            in if k > 0
               then v2\<lparr>v_sales := v_sales v2 @
                         [\<lparr>p_seq = sq, p_kg = k, p_price = p, p_comments = cm\<rparr>]\<rparr>
               else v2))"

definition csv_lines :: "string \<Rightarrow> string list" where
  "csv_lines csvString =
     filter (\<lambda>l. l \<noteq> [] \<and> \<not> startsWith l ''S/NO'') (map js_trim (js_split (CHR 0x0A) csvString))"

definition parseCSV :: "builtins \<Rightarrow> string \<Rightarrow> parsed_csv option" where
  "parseCSV B csvString =
     (let lines = csv_lines csvString
      in if lines = [] then None
         else
           (let v = fold (parse_line B) lines
                      \<lparr>v_sales = [], v_unitPrice = 0, v_openStock = 0, v_firstRow = True\<rparr>
            in Some \<lparr>unitPrice = v_unitPrice v, openingStock = v_openStock v,
                     parsed_sales = v_sales v\<rparr>))"

subsection \<open>migrate.js: the migration\<close>

definition MIGRATION_DONE_KEY :: string where
  "MIGRATION_DONE_KEY = ''migration_v1_done''"

definition isDone :: "engine \<Rightarrow> bool result" where
  "isDone = bnd (getSetting MIGRATION_DONE_KEY) (\<lambda>v s. (Inr (v = Some ''1''), s))"

datatype migrate_result =
    AlreadyDone
  | StoreNotFound
  | StoreEmpty
  | Summary nat nat nat

record counters =
  migratedDays :: nat
  migratedSales :: nat
  skippedDays :: nat

text \<open>The inner loop of step 3: one \<^verbatim>\<open>DB.run\<close> per parsed sale.\<close>

primrec insert_parsed_sales :: "nat \<Rightarrow> parsed_sale list \<Rightarrow> counters \<Rightarrow> engine \<Rightarrow> counters result" where
  "insert_parsed_sales dayId [] cnt = (\<lambda>s. (Inr cnt, s))"
| "insert_parsed_sales dayId (p # ps) cnt =
     bnd (run (insert_sale dayId (p_seq p) (p_kg p) (p_price p) (p_comments p))) (\<lambda>_.
       insert_parsed_sales dayId ps (cnt\<lparr>migratedSales := migratedSales cnt + 1\<rparr>))"

text \<open>Step 3: the loop over the historical daily keys.\<close>

primrec migrate_daily :: "builtins \<Rightarrow> legacy_store \<Rightarrow> string list \<Rightarrow> counters \<Rightarrow> engine \<Rightarrow> counters result" where
  "migrate_daily B store [] cnt = (\<lambda>s. (Inr cnt, s))"
| "migrate_daily B store (key # keys) cnt =
     (let date = remove_first ''dailySales_'' key
      in bnd (getDay date) (\<lambda>existing.
           case existing of
             Some _ \<Rightarrow> migrate_daily B store keys (cnt\<lparr>skippedDays := skippedDays cnt + 1\<rparr>)
           | None \<Rightarrow>
               (case getItem store key of
                  Some (LString csv) \<Rightarrow>
                    if csv = [] then migrate_daily B store keys cnt
                    else
                      (case parseCSV B csv of
                         None \<Rightarrow> migrate_daily B store keys cnt
                       | Some parsed \<Rightarrow>
                           if parsed_sales parsed = [] then migrate_daily B store keys cnt
                           else
                             bnd (run (insert_or_ignore_day date (openingStock parsed)
                                         (unitPrice parsed))) (\<lambda>dayResult.
                               (let dayId = lastInsertRowid dayResult
                                in if dayId = 0 then migrate_daily B store keys cnt
                                   else
                                     bnd (insert_parsed_sales dayId (parsed_sales parsed) cnt)
                                       (\<lambda>cnt'. migrate_daily B store keys
                                          (cnt'\<lparr>migratedDays := migratedDays cnt' + 1\<rparr>)))))
                | _ \<Rightarrow> migrate_daily B store keys cnt)))"

text \<open>Step 4: today's live chunks. The loop over \<^verbatim>\<open>validSales\<close> counts \<open>i\<close> from \<open>0\<close>.\<close>

primrec insert_chunk_sales :: "builtins \<Rightarrow> nat \<Rightarrow> rat \<Rightarrow> nat \<Rightarrow> chunk_row list \<Rightarrow> counters \<Rightarrow> engine \<Rightarrow> counters result" where
  "insert_chunk_sales B dayId up i [] cnt = (\<lambda>s. (Inr cnt, s))"
| "insert_chunk_sales B dayId up i (r # rs) cnt =
     (let k = num_or (parseFloat_opt B (gas r)) 0;
          p = num_or (parseFloat_opt B (chunk_price r)) (k * up)
      in bnd (run (insert_sale dayId (int i + 1) k p (chunk_comments r))) (\<lambda>_.
           insert_chunk_sales B dayId up (Suc i) rs (cnt\<lparr>migratedSales := migratedSales cnt + 1\<rparr>)))"

definition chunk_rows :: "legacy_store \<Rightarrow> string list \<Rightarrow> chunk_row list" where
  "chunk_rows store chunkKeys =
     concat (map (\<lambda>key. case getItem store key of Some (LChunk rows) \<Rightarrow> rows | _ \<Rightarrow> []) chunkKeys)"

definition gas_positive :: "builtins \<Rightarrow> chunk_row \<Rightarrow> bool" where
  "gas_positive B r = (case parseFloat_opt B (gas r) of None \<Rightarrow> False | Some g \<Rightarrow> g > 0)"

definition migrate_live :: "builtins \<Rightarrow> legacy_store \<Rightarrow> string \<Rightarrow> string list \<Rightarrow> counters \<Rightarrow> engine \<Rightarrow> counters result" where
  "migrate_live B store todayDate chunkKeys cnt =
     (if chunkKeys = [] then (\<lambda>s. (Inr cnt, s))
      else
        (let meta = (case getItem store ''salesMeta'' of Some (LMeta m) \<Rightarrow> Some m | _ \<Rightarrow> None)
         in bnd (getDay todayDate) (\<lambda>todayExists.
              case todayExists of
                Some _ \<Rightarrow> (\<lambda>s. (Inr cnt, s))
              | None \<Rightarrow>
                  (let up = num_or (parseFloat_opt B (case meta of None \<Rightarrow> None
                                                       | Some m \<Rightarrow> meta_unitPrice m)) 0;
                       os = num_or (parseFloat_opt B (case meta of None \<Rightarrow> None
                                                       | Some m \<Rightarrow> meta_newStock m)) 0;
                       validSales = filter (gas_positive B) (chunk_rows store chunkKeys)
                   in if validSales = [] then (\<lambda>s. (Inr cnt, s))
                      else
                        bnd (run (insert_or_ignore_day todayDate os up)) (\<lambda>dayResult.
                          (let dayId = lastInsertRowid dayResult
                           in if dayId = 0 then (\<lambda>s. (Inr cnt, s))
                              else
                                bnd (insert_chunk_sales B dayId up 0 validSales cnt) (\<lambda>cnt' s.
                                  (Inr (cnt'\<lparr>migratedDays := migratedDays cnt' + 1\<rparr>), s))))))))"

definition chunk_compare :: "builtins \<Rightarrow> string \<Rightarrow> string \<Rightarrow> int option" where
  "chunk_compare B a b =
     (case (parseInt B (remove_first ''salesChunk_'' a), parseInt B (remove_first ''salesChunk_'' b)) of
        (Some na, Some nb) \<Rightarrow> Some (na - nb)
      | _ \<Rightarrow> None)"

text \<open>\<^verbatim>\<open>Migrate.run\<close>; \<open>todayDate\<close> is what \<^verbatim>\<open>DB.today()\<close> returns.\<close>

definition migrate_run :: "builtins \<Rightarrow> legacy_store \<Rightarrow> string \<Rightarrow> engine \<Rightarrow> migrate_result result" where
  "migrate_run B store todayDate =
     bnd isDone (\<lambda>done.
       if done then (\<lambda>s. (Inr AlreadyDone, s))
       else
         (case store_keys store of
            None \<Rightarrow> bnd (saveSetting MIGRATION_DONE_KEY ''1'') (\<lambda>_ s. (Inr StoreNotFound, s))
          | Some allKeys \<Rightarrow>
              if allKeys = []
              then bnd (saveSetting MIGRATION_DONE_KEY ''1'') (\<lambda>_ s. (Inr StoreEmpty, s))
              else
                (let dailyKeys = sort (filter (\<lambda>k. startsWith k ''dailySales_'') allKeys);
                     chunkKeys = array_sort B (chunk_compare B)
                                   (filter (\<lambda>k. startsWith k ''salesChunk_'') allKeys)
                 in bnd (migrate_daily B store dailyKeys
                           \<lparr>migratedDays = 0, migratedSales = 0, skippedDays = 0\<rparr>) (\<lambda>cnt.
                      bnd (migrate_live B store todayDate chunkKeys cnt) (\<lambda>cnt'.
                        bnd (saveSetting MIGRATION_DONE_KEY ''1'') (\<lambda>_ s.
                          (Inr (Summary (migratedDays cnt') (migratedSales cnt') (skippedDays cnt')),
                           s)))))))"


subsection \<open>Concrete instances\<close>

text \<open>
  An instance of the builtins for decimal input: an optional sign, decimal digits and, for
  \<^verbatim>\<open>parseFloat\<close>, an optional fraction, after leading white space. The sort is the
  stable insertion sort, which treats a \<^verbatim>\<open>NaN\<close> comparison as "keep the order".
\<close>

definition is_digit :: "char \<Rightarrow> bool" where
  "is_digit c = (c \<in> set ''0123456789'')"

definition digit_val :: "char \<Rightarrow> nat" where
  "digit_val c = length (takeWhile (\<lambda>d. d \<noteq> c) ''0123456789'')"

definition digits_val :: "string \<Rightarrow> nat" where
  "digits_val ds = foldl (\<lambda>n c. 10 * n + digit_val c) 0 ds"

definition strip_sign :: "string \<Rightarrow> bool \<times> string" where
  "strip_sign s =
     (case s of
        [] \<Rightarrow> (False, [])
      | c # cs \<Rightarrow> if c = CHR ''-'' then (True, cs) else if c = CHR ''+'' then (False, cs)
                  else (False, c # cs))"

definition dec_parseInt :: "string \<Rightarrow> int option" where
  "dec_parseInt s =
     (let (neg, u) = strip_sign (dropWhile is_space s);
          ds = takeWhile is_digit u
      in if ds = [] then None
         else Some (if neg then - int (digits_val ds) else int (digits_val ds)))"

definition dec_parseFloat :: "string \<Rightarrow> rat option" where
  "dec_parseFloat s =
     (let (neg, u) = strip_sign (dropWhile is_space s);
          ds = takeWhile is_digit u;
          rest = dropWhile is_digit u;
          fs = (case rest of
                  [] \<Rightarrow> []
                | c # cs \<Rightarrow> if c = CHR ''.'' then takeWhile is_digit cs else []);
          v = of_nat (digits_val ds) + of_nat (digits_val fs) / 10 ^ length fs
      in if ds = [] \<and> fs = [] then None
         else Some (if neg then - v else v))"

primrec insert_by :: "(string \<Rightarrow> string \<Rightarrow> int option) \<Rightarrow> string \<Rightarrow> string list \<Rightarrow> string list" where
  "insert_by cmp x [] = [x]"
| "insert_by cmp x (y # ys) =
     (if (case cmp x y of None \<Rightarrow> False | Some n \<Rightarrow> n > 0) then y # insert_by cmp x ys
      else x # y # ys)"

definition stable_sort_by :: "(string \<Rightarrow> string \<Rightarrow> int option) \<Rightarrow> string list \<Rightarrow> string list" where
  "stable_sort_by cmp xs = foldr (insert_by cmp) xs []"

definition decimal_builtins :: builtins where
  "decimal_builtins =
     \<lparr>parseInt = dec_parseInt, parseFloat = dec_parseFloat, array_sort = stable_sort_by\<rparr>"

text \<open>An empty image with the four required tables, one without the sales table, and one
  with a table more.\<close>

definition seed_image :: database where
  "seed_image =
     \<lparr>catalog = [''company'', ''days'', ''sales'', ''settings''], days = [], sales = [], settings = []\<rparr>"

definition stale_image :: database where
  "stale_image = \<lparr>catalog = [''company'', ''days'', ''settings''], days = [], sales = [], settings = []\<rparr>"

definition wide_image :: database where
  "wide_image =
     \<lparr>catalog = [''sqlite_sequence'', ''settings'', ''sales'', ''days'', ''company''],
      days = [], sales = [], settings = []\<rparr>"

text \<open>The engine before \<^verbatim>\<open>init\<close> with a given blob in IndexedDB, and the engine right
  after a successful \<^verbatim>\<open>init\<close> on a given image.\<close>

definition cold_engine :: "database option \<Rightarrow> engine" where
  "cold_engine blob = \<lparr>db = None, dirty = False, idb = blob, idb_outcomes = [], trace = []\<rparr>"

definition warm_engine :: "database \<Rightarrow> engine" where
  "warm_engine img =
     \<lparr>db = Some (open_db img), dirty = False, idb = Some img, idb_outcomes = [], trace = []\<rparr>"


text \<open>The seed image after a day and a first sale of that day were written.\<close>

definition two_writes_image :: database where
  "two_writes_image =
     seed_image
       \<lparr>days := [\<lparr>d_id = 1, d_date = ''2026-03-01'', opening_stock = 100, unit_price = 1250\<rparr>],
        sales := [\<lparr>s_id = 1, day_id = 1, seq = 1, kg = 5, price = 6250, comments = ''Paid''\<rparr>]\<rparr>"


subsection \<open>The data rows of a CSV string, for stating what the parser computes\<close>

text \<open>
  A data row is a line that survives the filter of \<^verbatim>\<open>_parseCSV\<close> and splits into at
  least four columns, read column by column as the loop body reads it.
\<close>

record csv_row =
  r_seq :: int
  r_kg :: rat
  r_price :: rat
  r_comments :: string
  r_unit :: rat
  r_balance :: rat

definition csv_row_of :: "builtins \<Rightarrow> string \<Rightarrow> csv_row" where
  "csv_row_of B line =
     (let cols = js_split CHR '','' line
      in \<lparr>r_seq = int_or (parseInt B (cols ! 0)) 0,
          r_kg = num_or (parseFloat B (cols ! 1)) 0,
          r_price = num_or (parseFloat B (cols ! 2)) 0,
          r_comments = js_trim (cols ! 3),
          r_unit = num_or (parseFloat_opt B (at_index cols 4)) 0,
          r_balance = num_or (parseFloat_opt B (at_index cols 5)) 0\<rparr>)"

definition data_rows :: "builtins \<Rightarrow> string list \<Rightarrow> csv_row list" where
  "data_rows B ls = map (csv_row_of B) (filter (\<lambda>l. 4 \<le> length (js_split CHR '','' l)) ls)"

definition sale_of_row :: "csv_row \<Rightarrow> parsed_sale" where
  "sale_of_row r = \<lparr>p_seq = r_seq r, p_kg = r_kg r, p_price = r_price r, p_comments = r_comments r\<rparr>"

definition two_row_csv :: string where
  "two_row_csv = ''1,5,6250,Paid,1250,115.00'' @ [CHR 0x0A] @ ''2,3,3750,Paid,1250,112.00''"

text \<open>A CSV string with a header, a blank line, a line of two columns, a row without
  quantity and a row without a unit price, the last two separated by CR LF.\<close>

definition ragged_csv :: string where
  "ragged_csv =
     ''S/NO,GAS,PRICE,COMMENTS,UNIT,BALANCE'' @ [CHR 0x0A] @ '' '' @ [CHR 0x0A] @ ''x,y''
       @ [CHR 0x0A] @ ''7,0,0,Void,1300'' @ [CHR 0x0D, CHR 0x0A] @ ''8,2,2600, Cash ,,40.5''"

subsection \<open>The prior day, for stating the carry-forward\<close>




subsection \<open>An engine on which nothing of the environment fails\<close>


subsection \<open>A legacy store\<close>

text \<open>
  One historical day whose second row has no quantity, and two live chunks for today; the
  second entry of the first chunk has no quantity.
\<close>

definition gapped_csv :: string where
  "gapped_csv =
     ''S/NO,GAS,PRICE,COMMENTS,UNIT,BALANCE'' @ [CHR 0x0A] @ ''1,5,6250,Paid,1250,115.00''
       @ [CHR 0x0A] @ ''2,0,0,,1250,115.00'' @ [CHR 0x0A] @ ''3,2,2500,Paid,1250,113.00''"

definition old_store :: legacy_store where
  "old_store =
     \<lparr>store_keys = Some [''salesMeta'', ''salesChunk_1'', ''dailySales_2026-03-01'', ''salesChunk_0''],
      store_items =
        [(''dailySales_2026-03-01'', LString gapped_csv),
         (''salesMeta'', LMeta \<lparr>meta_unitPrice = Some ''1300'', meta_newStock = Some ''113''\<rparr>),
         (''salesChunk_0'',
            LChunk [\<lparr>gas = Some ''4'', chunk_price = Some ''5200'', chunk_comments = ''Paid''\<rparr>,
                    \<lparr>gas = Some [], chunk_price = Some [], chunk_comments = []\<rparr>]),
         (''salesChunk_1'',
            LChunk [\<lparr>gas = Some ''2.5'', chunk_price = None, chunk_comments = ''Owes''\<rparr>])]\<rparr>"

text \<open>The tables after \<^verbatim>\<open>Migrate.run\<close> has imported \<open>old_store\<close> into the seed image on
  2026-03-02.\<close>

definition imported_image :: database where
  "imported_image =
     seed_image
       \<lparr>days := [\<lparr>d_id = 1, d_date = ''2026-03-01'', opening_stock = 120, unit_price = 1250\<rparr>,
                 \<lparr>d_id = 2, d_date = ''2026-03-02'', opening_stock = 113, unit_price = 1300\<rparr>],
        sales := [\<lparr>s_id = 1, day_id = 1, seq = 1, kg = 5, price = 6250, comments = ''Paid''\<rparr>,
                  \<lparr>s_id = 2, day_id = 1, seq = 3, kg = 2, price = 2500, comments = ''Paid''\<rparr>,
                  \<lparr>s_id = 3, day_id = 2, seq = 1, kg = 4, price = 5200, comments = ''Paid''\<rparr>,
                  \<lparr>s_id = 4, day_id = 2, seq = 2, kg = 5 / 2, price = 3250, comments = ''Owes''\<rparr>],
        settings := [(''migration_v1_done'', ''1'')]\<rparr>"

subsection \<open>Dense sequence numbers, for stating the invariant\<close>




text \<open>What the updates issued by \<open>resequence i rows\<close> do to one row of the table.\<close>

primrec reseq_row :: "nat \<Rightarrow> sale_row list \<Rightarrow> sale_row \<Rightarrow> sale_row" where
  "reseq_row i [] r = r"
| "reseq_row i (row # rows) r =
     reseq_row (Suc i) rows (if s_id r = s_id row then r\<lparr>seq := int i + 1\<rparr> else r)"

subsection \<open>A handle with no transaction open\<close>

definition idle :: "engine \<Rightarrow> bool" where
  "idle s \<longleftrightarrow> (case db s of None \<Rightarrow> True | Some c \<Rightarrow> tx_saved c = None)"

section \<open>Properties of the engine\<close>

subsection \<open>Schema guard\<close>

lemma isSchemaCurrent_iff: "isSchemaCurrent d \<longleftrightarrow> set REQUIRED_TABLES \<subseteq> set (catalog d)"
  by (auto simp: isSchemaCurrent_def getExistingTables_def list_all_iff)

text \<open>
  Claim C5. The schema guard accepts a snapshot exactly when each of the four required table
  names company, days, sales and settings is in its table catalog; a catalog that holds
  more tables than an accepted one is accepted too. At \<^verbatim>\<open>init\<close>, with no live handle, a
  saved snapshot that the guard rejects is discarded and the seed is loaded: a failed fetch
  is the error, a fetched seed is opened and stored. A snapshot that the guard accepts is
  opened as it is.
\<close>

theorem schema_guard_floor:
  "(isSchemaCurrent d \<longleftrightarrow>
      {''company'', ''days'', ''sales'', ''settings''} \<subseteq> set (catalog d))
   \<and> (isSchemaCurrent d \<and> set (catalog d) \<subseteq> set (catalog d') \<longrightarrow> isSchemaCurrent d')
   \<and> (db s = None \<and> idb s = Some d \<and> \<not> isSchemaCurrent d \<longrightarrow>
        init seed s =
          (case seed of
             None \<Rightarrow> (Inl SeedFetchFailed, s)
           | Some img \<Rightarrow> saveToIDB img (s\<lparr>db := Some (open_db img)\<rparr>)))
   \<and> (db s = None \<and> idb s = Some d \<and> isSchemaCurrent d \<longrightarrow>
        init seed s = (Inr (), s\<lparr>db := Some (open_db d)\<rparr>))"
  by (auto simp: isSchemaCurrent_iff REQUIRED_TABLES_def init_def load_seed_def)

theorem schema_guard_floor_witness:
  "db (cold_engine (Some stale_image)) = None
   \<and> idb (cold_engine (Some stale_image)) = Some stale_image
   \<and> \<not> isSchemaCurrent stale_image
   \<and> isSchemaCurrent wide_image
   \<and> init (Some seed_image) (cold_engine (Some stale_image)) =
       (Inr (), \<lparr>db = Some (open_db seed_image), dirty = False, idb = Some seed_image,
                 idb_outcomes = [], trace = [IdbPut seed_image True]\<rparr>)
   \<and> init (Some seed_image) (cold_engine (Some wide_image)) =
       (Inr (), \<lparr>db = Some (open_db wide_image), dirty = False, idb = Some wide_image,
                 idb_outcomes = [], trace = []\<rparr>)"
  using schema_guard_floor [of stale_image seed_image "cold_engine (Some stale_image)" "Some seed_image"]
    schema_guard_floor [of wide_image wide_image "cold_engine (Some wide_image)" "Some seed_image"]
  by (simp add: stale_image_def wide_image_def cold_engine_def saveToIDB_def)

subsection \<open>persist\<close>

lemma persist_noop: "db s = None \<or> \<not> dirty s \<Longrightarrow> persist s = (Inr (), s)"
  by (auto simp: persist_def split: option.splits)

lemma persist_write:
  "db s = Some c \<Longrightarrow> dirty s \<Longrightarrow>
     persist s = (Inr (), s\<lparr>idb := Some (content c), idb_outcomes := tl (idb_outcomes s),
                            trace := trace s @ [IdbPut (content c) True], dirty := False\<rparr>)
     \<or> persist s = (Inl IDBError, s\<lparr>idb_outcomes := tl (idb_outcomes s),
                                    trace := trace s @ [IdbPut (content c) False]\<rparr>)"
  by (auto simp: persist_def saveToIDB_def split: list.splits)

lemma persist_n_clean: "db s = None \<or> \<not> dirty s \<Longrightarrow> persist_n n s = s"
  by (induction n) (auto simp: persist_noop)

lemma persist_Inr_clean:
  assumes "fst (persist s) = Inr ()"
  shows "db (snd (persist s)) = None \<or> \<not> dirty (snd (persist s))"
proof (cases "db s = None \<or> \<not> dirty s")
  case True
  then show ?thesis by (auto simp: persist_noop)
next
  case False
  then obtain c where "db s = Some c" "dirty s" by auto
  from persist_write [OF this] assms show ?thesis by auto
qed

lemma persist_n_puts:
  "\<exists>evs. trace (persist_n n s) = trace s @ evs \<and> puts_ok evs \<le> 1 \<and> MarkDirty \<notin> set evs"
proof (induction n arbitrary: s)
  case 0
  then show ?case by (simp add: puts_ok_def)
next
  case (Suc n)
  let ?s1 = "snd (persist s)"
  show ?case
  proof (cases "db s = None \<or> \<not> dirty s")
    case True
    then show ?thesis using Suc.IH [of s] by (simp add: persist_noop)
  next
    case False
    then obtain c where c: "db s = Some c" "dirty s" by auto
    from persist_write [OF c] show ?thesis
    proof
      assume ok: "persist s = (Inr (), s\<lparr>idb := Some (content c),
        idb_outcomes := tl (idb_outcomes s),
        trace := trace s @ [IdbPut (content c) True], dirty := False\<rparr>)"
      then have "persist_n n ?s1 = ?s1" by (simp add: persist_n_clean)
      with ok show ?thesis by (simp add: puts_ok_def)
    next
      assume bad: "persist s = (Inl IDBError, s\<lparr>idb_outcomes := tl (idb_outcomes s),
        trace := trace s @ [IdbPut (content c) False]\<rparr>)"
      from Suc.IH [of ?s1] obtain evs where
        "trace (persist_n n ?s1) = trace ?s1 @ evs" "puts_ok evs \<le> 1" "MarkDirty \<notin> set evs"
        by blast
      with bad show ?thesis
        by (intro exI [of _ "IdbPut (content c) False # evs"]) (simp add: puts_ok_def)
    qed
  qed
qed

text \<open>
  Claim C3. \<^verbatim>\<open>persist\<close> does nothing when there is no handle or the dirty flag is clear.
  With the flag set it issues one put of the current image; when the put completes the
  image is stored and the flag is cleared, when it fails the flag stays set. Hence any
  number \<open>n\<close> of calls in a row, with no write in between, complete at most one put in
  total, and once a call has returned normally every later call leaves the state as it is.
\<close>

theorem persist_gating:
  "(db s = None \<or> \<not> dirty s \<longrightarrow> persist s = (Inr (), s))
   \<and> (\<forall>c. db s = Some c \<and> dirty s \<longrightarrow>
         persist s = (Inr (), s\<lparr>idb := Some (content c), idb_outcomes := tl (idb_outcomes s),
                                trace := trace s @ [IdbPut (content c) True], dirty := False\<rparr>)
         \<or> persist s = (Inl IDBError, s\<lparr>idb_outcomes := tl (idb_outcomes s),
                                        trace := trace s @ [IdbPut (content c) False]\<rparr>))
   \<and> (\<exists>evs. trace (persist_n n s) = trace s @ evs \<and> puts_ok evs \<le> 1 \<and> MarkDirty \<notin> set evs)
   \<and> (fst (persist s) = Inr () \<longrightarrow> persist_n n (snd (persist s)) = snd (persist s))"
  using persist_noop [of s] persist_write [of s] persist_n_puts [of n s]
    persist_n_clean [OF persist_Inr_clean, of s n]
  by blast

theorem persist_gating_witness:
  "\<not> dirty (warm_engine seed_image)
   \<and> db (warm_engine seed_image\<lparr>dirty := True\<rparr>) = Some (open_db seed_image)
   \<and> dirty (warm_engine seed_image\<lparr>dirty := True\<rparr>)
   \<and> persist (warm_engine seed_image) = (Inr (), warm_engine seed_image)
   \<and> persist (warm_engine seed_image\<lparr>dirty := True\<rparr>) =
       (Inr (), warm_engine seed_image\<lparr>trace := [IdbPut seed_image True]\<rparr>)
   \<and> persist_n 3 (warm_engine seed_image\<lparr>dirty := True\<rparr>) =
       warm_engine seed_image\<lparr>trace := [IdbPut seed_image True]\<rparr>
   \<and> puts_ok (trace (persist_n 3 (warm_engine seed_image\<lparr>dirty := True\<rparr>))) = 1"
  using persist_gating [of "warm_engine seed_image" 3]
    persist_gating [of "warm_engine seed_image\<lparr>dirty := True\<rparr>" 2]
  by (simp add: warm_engine_def open_db_def puts_ok_def persist_def saveToIDB_def numeral_3_eq_3 numeral_2_eq_2)

subsection \<open>run\<close>

lemma run_uninit: "db s = None \<Longrightarrow> run st s = (Inl NotInitialised, s)"
  by (simp add: run_def)

lemma run_fail: "db s = Some c \<Longrightarrow> st (content c) = Inl e \<Longrightarrow> run st s = (Inl e, s)"
  by (simp add: run_def conn_run_def)

lemma run_ok:
  assumes "db s = Some c" "st (content c) = Inr (d, n, rid)"
  shows "\<exists>ok. run st s =
           (if ok then Inr \<lparr>changes = n,
                            lastInsertRowid = (case rid of None \<Rightarrow> last_rowid c | Some r \<Rightarrow> r)\<rparr>
            else Inl IDBError,
            s\<lparr>db := Some (c\<lparr>content := d, rows_modified := n,
                             last_rowid := (case rid of None \<Rightarrow> last_rowid c | Some r \<Rightarrow> r)\<rparr>),
              dirty := \<not> ok,
              idb := (if ok then Some d else idb s),
              idb_outcomes := tl (idb_outcomes s),
              trace := trace s @ [MarkDirty, IdbPut d ok]\<rparr>)"
proof (cases "idb_outcomes s")
  case Nil
  with assms show ?thesis
    by (intro exI [of _ True]) (simp add: run_def conn_run_def persist_def saveToIDB_def)
next
  case (Cons ok rest)
  with assms show ?thesis
    by (intro exI [of _ ok]) (simp add: run_def conn_run_def persist_def saveToIDB_def)
qed

text \<open>
  Claim C9. Before \<^verbatim>\<open>init\<close> has set the handle, \<^verbatim>\<open>run\<close> fails with the
  not-initialised error and leaves the state as it is. With a handle, a statement that
  fails makes \<^verbatim>\<open>run\<close> fail with that same error and leaves the whole state as it is: the
  dirty flag is not assigned and no put is issued. A statement that succeeds is applied,
  the dirty flag is assigned once and then \<^verbatim>\<open>persist\<close> issues one put of the new image;
  \<^verbatim>\<open>run\<close> returns the row count and the last rowid when the put completes and the
  put's error when it does not.
\<close>

theorem run_guarded:
  "(db s = None \<longrightarrow> run st s = (Inl NotInitialised, s))
   \<and> (\<forall>c e. db s = Some c \<and> st (content c) = Inl e \<longrightarrow> run st s = (Inl e, s))
   \<and> (\<forall>c d n rid. db s = Some c \<and> st (content c) = Inr (d, n, rid) \<longrightarrow>
        (\<exists>ok. run st s =
           (if ok then Inr \<lparr>changes = n,
                            lastInsertRowid = (case rid of None \<Rightarrow> last_rowid c | Some r \<Rightarrow> r)\<rparr>
            else Inl IDBError,
            s\<lparr>db := Some (c\<lparr>content := d, rows_modified := n,
                             last_rowid := (case rid of None \<Rightarrow> last_rowid c | Some r \<Rightarrow> r)\<rparr>),
              dirty := \<not> ok,
              idb := (if ok then Some d else idb s),
              idb_outcomes := tl (idb_outcomes s),
              trace := trace s @ [MarkDirty, IdbPut d ok]\<rparr>)))"
  using run_uninit [of s st] run_fail [of s _ st] run_ok [of s _ st]
  by blast

theorem run_guarded_witness:
  "db (cold_engine None) = None
   \<and> run (insert_day ''2026-03-01'' 0 0) (cold_engine None) = (Inl NotInitialised, cold_engine None)
   \<and> db (warm_engine seed_image) = Some (open_db seed_image)
   \<and> insert_sale 7 1 5 6250 ''Paid'' (content (open_db seed_image)) =
       Inl (SqlError ''FOREIGN KEY constraint failed'')
   \<and> upsert_setting ''k'' ''v'' (content (open_db seed_image)) =
       Inr (seed_image\<lparr>settings := [(''k'', ''v'')]\<rparr>, 1, Some 1)
   \<and> run (insert_sale 7 1 5 6250 ''Paid'') (warm_engine seed_image) =
       (Inl (SqlError ''FOREIGN KEY constraint failed''), warm_engine seed_image)
   \<and> run (upsert_setting ''k'' ''v'') (warm_engine seed_image) =
         (Inr \<lparr>changes = 1, lastInsertRowid = 1\<rparr>,
          \<lparr>db = Some \<lparr>content = seed_image\<lparr>settings := [(''k'', ''v'')]\<rparr>, tx_saved = None,
                      last_rowid = 1, rows_modified = 1\<rparr>,
           dirty = False,
           idb = Some (seed_image\<lparr>settings := [(''k'', ''v'')]\<rparr>),
           idb_outcomes = [],
           trace = [MarkDirty, IdbPut (seed_image\<lparr>settings := [(''k'', ''v'')]\<rparr>) True]\<rparr>)"
  using run_guarded [of "cold_engine None" "insert_day ''2026-03-01'' 0 0"]
    run_guarded [of "warm_engine seed_image" "insert_sale 7 1 5 6250 ''Paid''"]
    run_guarded [of "warm_engine seed_image" "upsert_setting ''k'' ''v''"]
  by (simp add: cold_engine_def warm_engine_def open_db_def seed_image_def insert_sale_def
      upsert_setting_def run_def conn_run_def persist_def saveToIDB_def)

subsection \<open>transaction\<close>

lemma runInTx_Inr:
  "runInTx st c = Inr (r, c1) \<Longrightarrow>
     tx_saved c1 = tx_saved c \<and> (\<exists>d n rid. st (content c) = Inr (d, n, rid) \<and> content c1 = d)"
  by (auto simp: runInTx_def conn_run_def split: sum.splits prod.splits)

lemma run_script_tx_saved: "run_script fn c = (r, c') \<Longrightarrow> tx_saved c' = tx_saved c"
proof (induction fn arbitrary: c r c')
  case (TxRun st k)
  show ?case
  proof (cases "runInTx st c")
    case (Inl e)
    with TxRun.prems show ?thesis by simp
  next
    case (Inr p)
    obtain r1 c1 where p: "p = (r1, c1)" by (cases p)
    with Inr TxRun.prems have "run_script (k r1) c1 = (r, c')" by simp
    then have "tx_saved c' = tx_saved c1" by (rule TxRun.IH [OF rangeI])
    with Inr p show ?thesis by (simp add: runInTx_Inr)
  qed
next
  case (TxQuery q)
  from TxQuery.prems have "run_script (q (content c)) c = (r, c')" by simp
  then show ?case by (rule TxQuery.IH [OF rangeI])
qed auto

lemma run_script_ops_ok:
  "apply_ops ops (content c) = Inr d \<Longrightarrow>
     \<exists>c'. run_script (tx_ops ops) c = (Inr (), c') \<and> content c' = d"
proof (induction ops arbitrary: c)
  case Nil
  then show ?case by simp
next
  case (Cons st ops)
  then show ?case
    by (auto simp: runInTx_def conn_run_def split: sum.splits prod.splits)
qed

lemma run_script_ops_fail:
  "k < length ops \<Longrightarrow> apply_ops (take k ops) (content c) = Inr d \<Longrightarrow> (ops ! k) d = Inl e \<Longrightarrow>
     \<exists>c'. run_script (tx_ops ops) c = (Inl e, c')"
proof (induction ops arbitrary: c k)
  case Nil
  then show ?case by simp
next
  case (Cons st ops)
  show ?case
  proof (cases k)
    case 0
    with Cons.prems show ?thesis by (simp add: runInTx_def conn_run_def)
  next
    case (Suc j)
    with Cons.prems obtain d1 n rid where st: "st (content c) = Inr (d1, n, rid)"
      and rest: "apply_ops (take j ops) d1 = Inr d"
      by (auto split: sum.splits)
    let ?c1 = "c\<lparr>content := d1, rows_modified := n,
                 last_rowid := (case rid of None \<Rightarrow> last_rowid c | Some r \<Rightarrow> r)\<rparr>"
    from Cons.prems Suc have "j < length ops" "(ops ! j) d = Inl e" by simp_all
    with rest Cons.IH [of j ?c1] obtain c' where "run_script (tx_ops ops) ?c1 = (Inl e, c')"
      by auto
    with st show ?thesis by (simp add: runInTx_def conn_run_def)
  qed
qed

text \<open>The two outcomes of \<^verbatim>\<open>transaction\<close> for any callback, on a handle with no
  transaction open.\<close>

lemma transaction_fail:
  assumes "db s = Some c" "tx_saved c = None"
    and "run_script fn (c\<lparr>tx_saved := Some (content c)\<rparr>) = (Inl e, c2)"
  shows "transaction fn s = (Inl e, s\<lparr>db := Some (c2\<lparr>content := content c, tx_saved := None\<rparr>)\<rparr>)"
proof -
  from assms(3) have "tx_saved c2 = Some (content c)"
    by (auto dest: run_script_tx_saved)
  with assms show ?thesis
    by (simp add: transaction_def conn_begin_def tx_catch_def conn_rollback_def)
qed

lemma transaction_ok:
  assumes "db s = Some c" "tx_saved c = None"
    and "run_script fn (c\<lparr>tx_saved := Some (content c)\<rparr>) = (Inr (), c2)"
  shows "\<exists>ok. transaction fn s =
           (if ok then Inr () else Inl (SqlError ''cannot rollback - no transaction is active''),
            s\<lparr>db := Some (c2\<lparr>tx_saved := None\<rparr>), dirty := \<not> ok,
              idb := (if ok then Some (content c2) else idb s),
              idb_outcomes := tl (idb_outcomes s),
              trace := trace s @ [MarkDirty, IdbPut (content c2) ok]\<rparr>)"
proof -
  from assms(3) have saved: "tx_saved c2 = Some (content c)"
    by (auto dest: run_script_tx_saved)
  show ?thesis
  proof (cases "idb_outcomes s")
    case Nil
    with assms saved show ?thesis
      by (intro exI [of _ True])
        (simp add: transaction_def conn_begin_def conn_commit_def persist_def saveToIDB_def)
  next
    case (Cons ok rest)
    with assms saved show ?thesis
      by (intro exI [of _ ok])
        (simp add: transaction_def conn_begin_def conn_commit_def persist_def saveToIDB_def
          tx_catch_def conn_rollback_def)
  qed
qed

text \<open>
  Claim C1. Let the engine hold a handle with no transaction open, and let
  \<^verbatim>\<open>transaction\<close> run a sequence of writes. If the writes before the \<open>k\<close>-th succeed and
  the \<open>k\<close>-th fails with \<open>e\<close>, then \<^verbatim>\<open>transaction\<close> fails with that same \<open>e\<close>, the tables
  are those from before the transaction, no transaction stays open, and the dirty flag,
  the stored blob and the trace are what they were: the flag was not assigned and no put
  was issued. If all writes succeed, the tables are those the writes produce, no
  transaction stays open, the dirty flag is assigned exactly once and \<^verbatim>\<open>persist\<close> then
  issues exactly one put, of the committed image.
\<close>

theorem transaction_atomic:
  assumes "db s = Some c" and "tx_saved c = None"
  shows
    "(\<forall>k d e. k < length ops \<and> apply_ops (take k ops) (content c) = Inr d \<and> (ops ! k) d = Inl e \<longrightarrow>
        (\<exists>c'. transaction (tx_ops ops) s = (Inl e, s\<lparr>db := Some c'\<rparr>)
              \<and> content c' = content c \<and> tx_saved c' = None))
     \<and> (\<forall>d. apply_ops ops (content c) = Inr d \<longrightarrow>
        (\<exists>ok c'. transaction (tx_ops ops) s =
           (if ok then Inr () else Inl (SqlError ''cannot rollback - no transaction is active''),
            s\<lparr>db := Some c', dirty := \<not> ok,
              idb := (if ok then Some d else idb s),
              idb_outcomes := tl (idb_outcomes s),
              trace := trace s @ [MarkDirty, IdbPut d ok]\<rparr>)
           \<and> content c' = d \<and> tx_saved c' = None))"
proof (intro conjI allI impI)
  fix k d e
  assume "k < length ops \<and> apply_ops (take k ops) (content c) = Inr d \<and> (ops ! k) d = Inl e"
  then obtain c2 where "run_script (tx_ops ops) (c\<lparr>tx_saved := Some (content c)\<rparr>) = (Inl e, c2)"
    using run_script_ops_fail [of k ops "c\<lparr>tx_saved := Some (content c)\<rparr>" d e] by auto
  from transaction_fail [OF assms this]
  show "\<exists>c'. transaction (tx_ops ops) s = (Inl e, s\<lparr>db := Some c'\<rparr>)
          \<and> content c' = content c \<and> tx_saved c' = None"
    by (intro exI [of _ "c2\<lparr>content := content c, tx_saved := None\<rparr>"]) simp
next
  fix d
  assume "apply_ops ops (content c) = Inr d"
  then obtain c2 where c2: "run_script (tx_ops ops) (c\<lparr>tx_saved := Some (content c)\<rparr>) = (Inr (), c2)"
    "content c2 = d"
    using run_script_ops_ok [of ops "c\<lparr>tx_saved := Some (content c)\<rparr>" d] by auto
  from transaction_ok [OF assms c2(1)] c2(2)
  show "\<exists>ok c'. transaction (tx_ops ops) s =
           (if ok then Inr () else Inl (SqlError ''cannot rollback - no transaction is active''),
            s\<lparr>db := Some c', dirty := \<not> ok,
              idb := (if ok then Some d else idb s),
              idb_outcomes := tl (idb_outcomes s),
              trace := trace s @ [MarkDirty, IdbPut d ok]\<rparr>)
           \<and> content c' = d \<and> tx_saved c' = None"
    by (elim exE, rule_tac x = ok in exI, rule_tac x = "c2\<lparr>tx_saved := None\<rparr>" in exI) simp
qed

theorem transaction_atomic_witness:
  "db (warm_engine seed_image) = Some (open_db seed_image) \<and> tx_saved (open_db seed_image) = None
   \<and> apply_ops (take 1 [insert_day ''2026-03-01'' 100 1250, insert_sale 7 1 5 6250 ''Paid''])
       (content (open_db seed_image)) =
     Inr (seed_image\<lparr>days := [\<lparr>d_id = 1, d_date = ''2026-03-01'', opening_stock = 100,
                                unit_price = 1250\<rparr>]\<rparr>)
   \<and> ([insert_day ''2026-03-01'' 100 1250, insert_sale 7 1 5 6250 ''Paid''] ! 1)
       (seed_image\<lparr>days := [\<lparr>d_id = 1, d_date = ''2026-03-01'', opening_stock = 100,
                                unit_price = 1250\<rparr>]\<rparr>) =
     Inl (SqlError ''FOREIGN KEY constraint failed'')
   \<and> apply_ops [insert_day ''2026-03-01'' 100 1250, insert_sale 1 1 5 6250 ''Paid'']
       (content (open_db seed_image)) = Inr two_writes_image
   \<and> transaction (tx_ops [insert_day ''2026-03-01'' 100 1250, insert_sale 7 1 5 6250 ''Paid''])
       (warm_engine seed_image) =
     (Inl (SqlError ''FOREIGN KEY constraint failed''),
      warm_engine seed_image\<lparr>db := Some ((open_db seed_image)\<lparr>last_rowid := 1, rows_modified := 1\<rparr>)\<rparr>)
   \<and> transaction (tx_ops [insert_day ''2026-03-01'' 100 1250, insert_sale 1 1 5 6250 ''Paid''])
       (warm_engine seed_image) =
     (Inr (),
      \<lparr>db = Some \<lparr>content = two_writes_image, tx_saved = None, last_rowid = 1, rows_modified = 1\<rparr>,
       dirty = False, idb = Some two_writes_image, idb_outcomes = [],
       trace = [MarkDirty, IdbPut two_writes_image True]\<rparr>)"
proof -
  have h: "db (warm_engine seed_image) = Some (open_db seed_image)" "tx_saved (open_db seed_image) = None"
    by (simp_all add: warm_engine_def open_db_def)
  show ?thesis
    using h transaction_atomic [OF h, of "[insert_day ''2026-03-01'' 100 1250, insert_sale 7 1 5 6250 ''Paid'']"]
      transaction_atomic [OF h, of "[insert_day ''2026-03-01'' 100 1250, insert_sale 1 1 5 6250 ''Paid'']"]
    by (simp add: warm_engine_def open_db_def seed_image_def two_writes_image_def
        transaction_def conn_begin_def conn_commit_def conn_rollback_def tx_catch_def
        runInTx_def conn_run_def persist_def saveToIDB_def
        insert_day_def insert_sale_def next_rowid_def)
qed


subsection \<open>No transaction stays open\<close>

text \<open>
  The theorems on \<^verbatim>\<open>transaction\<close> ask for a handle with no transaction open. Every
  engine state that the entry points of the module produce is of this kind: \<^verbatim>\<open>init\<close>
  opens such a handle, and \<^verbatim>\<open>persist\<close>, \<^verbatim>\<open>run\<close>, \<^verbatim>\<open>query\<close> with a write
  statement and \<^verbatim>\<open>transaction\<close> with any callback keep it so.
\<close>

lemma init_idle: "idle s \<Longrightarrow> idle (snd (init seed s))"
  by (auto simp: idle_def init_def load_seed_def saveToIDB_def open_db_def
      split: option.splits list.splits)

lemma persist_idle: "idle s \<Longrightarrow> idle (snd (persist s))"
  by (auto simp: idle_def persist_def saveToIDB_def split: option.splits list.splits)

lemma run_idle: "idle s \<Longrightarrow> idle (snd (run st s))"
  by (auto simp: idle_def run_def conn_run_def persist_def saveToIDB_def Let_def
      split: option.splits list.splits sum.splits)

lemma query_exec_idle: "idle s \<Longrightarrow> idle (snd (query_exec st s))"
  by (auto simp: idle_def query_exec_def conn_run_def split: option.splits sum.splits)

lemma transaction_idle:
  assumes "idle s"
  shows "idle (snd (transaction fn s))"
proof (cases "db s")
  case None
  then show ?thesis by (simp add: transaction_def idle_def)
next
  case (Some c)
  with assms have free: "tx_saved c = None" by (simp add: idle_def)
  obtain r c2 where script: "run_script fn (c\<lparr>tx_saved := Some (content c)\<rparr>) = (r, c2)"
    by (cases "run_script fn (c\<lparr>tx_saved := Some (content c)\<rparr>)")
  show ?thesis
  proof (cases r)
    case (Inl e)
    with script transaction_fail [OF Some free, of fn e c2] show ?thesis
      by (simp add: idle_def)
  next
    case (Inr u)
    with script transaction_ok [OF Some free, of fn c2] show ?thesis
      by (auto simp: idle_def)
  qed
qed

section \<open>Properties of the importer's CSV parser\<close>

lemma parse_line_short:
  "length (js_split CHR '','' l) < 4 \<Longrightarrow> parse_line B l v = v"
  by (simp add: parse_line_def)

lemma parse_line_row:
  "4 \<le> length (js_split CHR '','' l) \<Longrightarrow>
     parse_line B l v =
       \<lparr>v_sales = v_sales v @ (if r_kg (csv_row_of B l) > 0 then [sale_of_row (csv_row_of B l)] else []),
        v_unitPrice = (if r_unit (csv_row_of B l) > 0 then r_unit (csv_row_of B l) else v_unitPrice v),
        v_openStock = (if v_firstRow v \<and> r_kg (csv_row_of B l) > 0
                       then r_balance (csv_row_of B l) + r_kg (csv_row_of B l) else v_openStock v),
        v_firstRow = (v_firstRow v \<and> \<not> r_kg (csv_row_of B l) > 0)\<rparr>"
  by (simp add: parse_line_def csv_row_of_def sale_of_row_def Let_def)

lemma data_rows_Cons:
  "data_rows B (l # ls) =
     (if 4 \<le> length (js_split CHR '','' l) then csv_row_of B l # data_rows B ls else data_rows B ls)"
  by (simp add: data_rows_def)

lemma fold_parse_sales:
  "v_sales (fold (parse_line B) ls v) =
     v_sales v @ map sale_of_row (filter (\<lambda>r. r_kg r > 0) (data_rows B ls))"
proof (induction ls arbitrary: v)
  case Nil
  then show ?case by (simp add: data_rows_def)
next
  case (Cons l ls)
  show ?case
  proof (cases "4 \<le> length (js_split CHR '','' l)")
    case True
    then show ?thesis by (simp add: Cons.IH data_rows_Cons parse_line_row)
  next
    case False
    then show ?thesis by (simp add: Cons.IH data_rows_Cons parse_line_short)
  qed
qed

lemma fold_parse_unit:
  "v_unitPrice (fold (parse_line B) ls v) =
     (case filter (\<lambda>r. r_unit r > 0) (data_rows B ls) of
        [] \<Rightarrow> v_unitPrice v
      | u # us \<Rightarrow> r_unit (last (u # us)))"
proof (induction ls arbitrary: v)
  case Nil
  then show ?case by (simp add: data_rows_def)
next
  case (Cons l ls)
  show ?case
  proof (cases "4 \<le> length (js_split CHR '','' l)")
    case True
    then show ?thesis
      by (simp add: Cons.IH data_rows_Cons parse_line_row split: list.splits)
  next
    case False
    then show ?thesis by (simp add: Cons.IH data_rows_Cons parse_line_short)
  qed
qed

lemma fold_parse_open:
  "v_firstRow (fold (parse_line B) ls v) =
     (v_firstRow v \<and> filter (\<lambda>r. r_kg r > 0) (data_rows B ls) = [])
   \<and> v_openStock (fold (parse_line B) ls v) =
     (if v_firstRow v
      then (case filter (\<lambda>r. r_kg r > 0) (data_rows B ls) of
              [] \<Rightarrow> v_openStock v
            | r # _ \<Rightarrow> r_balance r + r_kg r)
      else v_openStock v)"
proof (induction ls arbitrary: v)
  case Nil
  then show ?case by (simp add: data_rows_def)
next
  case (Cons l ls)
  show ?case
  proof (cases "4 \<le> length (js_split CHR '','' l)")
    case True
    then show ?thesis
      by (simp add: Cons.IH data_rows_Cons parse_line_row split: list.splits)
  next
    case False
    then show ?thesis by (simp add: Cons.IH data_rows_Cons parse_line_short)
  qed
qed

lemma fold_parse_initial:
  fixes B ls
  defines "v \<equiv> fold (parse_line B) ls
                 \<lparr>v_sales = [], v_unitPrice = 0, v_openStock = 0, v_firstRow = True\<rparr>"
  shows "v_sales v = map sale_of_row (filter (\<lambda>r. r_kg r > 0) (data_rows B ls))"
    and "v_unitPrice v =
           (case filter (\<lambda>r. r_unit r > 0) (data_rows B ls) of
              [] \<Rightarrow> 0
            | u # us \<Rightarrow> r_unit (last (u # us)))"
    and "v_openStock v =
           (case filter (\<lambda>r. r_kg r > 0) (data_rows B ls) of
              [] \<Rightarrow> 0
            | r # _ \<Rightarrow> r_balance r + r_kg r)"
proof -
  show "v_sales v = map sale_of_row (filter (\<lambda>r. r_kg r > 0) (data_rows B ls))"
    by (simp add: v_def fold_parse_sales)
  show "v_unitPrice v =
           (case filter (\<lambda>r. r_unit r > 0) (data_rows B ls) of
              [] \<Rightarrow> 0
            | u # us \<Rightarrow> r_unit (last (u # us)))"
    by (cases "filter (\<lambda>r. r_unit r > 0) (data_rows B ls)") (simp_all add: v_def fold_parse_unit)
  show "v_openStock v =
           (case filter (\<lambda>r. r_kg r > 0) (data_rows B ls) of
              [] \<Rightarrow> 0
            | r # _ \<Rightarrow> r_balance r + r_kg r)"
    by (cases "filter (\<lambda>r. r_kg r > 0) (data_rows B ls)") (simp_all add: v_def fold_parse_open)
qed

lemmas dec_eval = decimal_builtins_def dec_parseFloat_def dec_parseInt_def strip_sign_def
  is_space_def is_digit_def digits_val_def digit_val_def int_or_def num_or_def
  parseFloat_opt_def at_index_def js_trim_def

lemma csv_lines_two_rows:
  "csv_lines two_row_csv = [''1,5,6250,Paid,1250,115.00'', ''2,3,3750,Paid,1250,112.00'']"
  by (simp add: csv_lines_def two_row_csv_def js_trim_def is_space_def startsWith_def)

lemma parseCSV_two_rows:
  "parseCSV decimal_builtins two_row_csv =
     Some \<lparr>unitPrice = 1250, openingStock = 120,
           parsed_sales = [\<lparr>p_seq = 1, p_kg = 5, p_price = 6250, p_comments = ''Paid''\<rparr>,
                           \<lparr>p_seq = 2, p_kg = 3, p_price = 3750, p_comments = ''Paid''\<rparr>]\<rparr>"
  by (simp add: parseCSV_def csv_lines_two_rows parse_line_def dec_eval)

text \<open>
  Claim C4. For every CSV string and every behaviour of the builtins: the lines are the
  trimmed pieces between line feeds, without the empty ones and without those that start
  with the header mark; with no line left the result is null. Otherwise, over the data
  rows (the lines with at least four columns), the unit price is the unit column of the
  last row where that column is positive (0 when there is none), the opening stock is
  balance plus quantity of the first row with a positive quantity (0 when there is
  none), and the sales are exactly the rows with a positive quantity, in file order.
  On the two rows of the specification's example the result is unit price 1250, opening
  stock 120 and the two sales with seq 1, kg 5, price 6250 and seq 2, kg 3, price 3750.
\<close>

theorem parseCSV_contract:
  "parseCSV B csv =
     (let lines = filter (\<lambda>l. l \<noteq> [] \<and> \<not> startsWith l ''S/NO'')
                    (map js_trim (js_split (CHR 0x0A) csv));
          rows = data_rows B lines;
          sold = filter (\<lambda>r. r_kg r > 0) rows
      in if lines = [] then None
         else Some \<lparr>unitPrice = (case filter (\<lambda>r. r_unit r > 0) rows of
                                    [] \<Rightarrow> 0
                                  | u # us \<Rightarrow> r_unit (last (u # us))),
                    openingStock = (case sold of [] \<Rightarrow> 0 | r # _ \<Rightarrow> r_balance r + r_kg r),
                    parsed_sales = map sale_of_row sold\<rparr>)
   \<and> parseCSV decimal_builtins two_row_csv =
       Some \<lparr>unitPrice = 1250, openingStock = 120,
             parsed_sales = [\<lparr>p_seq = 1, p_kg = 5, p_price = 6250, p_comments = ''Paid''\<rparr>,
                             \<lparr>p_seq = 2, p_kg = 3, p_price = 3750, p_comments = ''Paid''\<rparr>]\<rparr>"
proof (rule conjI)
  show "parseCSV B csv =
     (let lines = filter (\<lambda>l. l \<noteq> [] \<and> \<not> startsWith l ''S/NO'')
                    (map js_trim (js_split (CHR 0x0A) csv));
          rows = data_rows B lines;
          sold = filter (\<lambda>r. r_kg r > 0) rows
      in if lines = [] then None
         else Some \<lparr>unitPrice = (case filter (\<lambda>r. r_unit r > 0) rows of
                                    [] \<Rightarrow> 0
                                  | u # us \<Rightarrow> r_unit (last (u # us))),
                    openingStock = (case sold of [] \<Rightarrow> 0 | r # _ \<Rightarrow> r_balance r + r_kg r),
                    parsed_sales = map sale_of_row sold\<rparr>)"
    by (simp add: parseCSV_def csv_lines_def Let_def fold_parse_initial)
qed (rule parseCSV_two_rows)

lemma csv_lines_ragged:
  "filter (\<lambda>l. l \<noteq> [] \<and> \<not> startsWith l ''S/NO'') (map js_trim (js_split (CHR 0x0A) ragged_csv)) =
     [''x,y'', ''7,0,0,Void,1300'', ''8,2,2600, Cash ,,40.5'']"
  by (simp add: ragged_csv_def js_trim_def is_space_def startsWith_def)

lemma data_rows_ragged:
  "data_rows decimal_builtins [''x,y'', ''7,0,0,Void,1300'', ''8,2,2600, Cash ,,40.5''] =
     [\<lparr>r_seq = 7, r_kg = 0, r_price = 0, r_comments = ''Void'', r_unit = 1300, r_balance = 0\<rparr>,
      \<lparr>r_seq = 8, r_kg = 2, r_price = 2600, r_comments = ''Cash'', r_unit = 0, r_balance = 81 / 2\<rparr>]"
  by (simp add: data_rows_def csv_row_of_def dec_eval)

theorem parseCSV_contract_witness:
  "parseCSV decimal_builtins ragged_csv =
     Some \<lparr>unitPrice = 1300, openingStock = 85 / 2,
           parsed_sales = [\<lparr>p_seq = 8, p_kg = 2, p_price = 2600, p_comments = ''Cash''\<rparr>]\<rparr>"
  using parseCSV_contract [of decimal_builtins ragged_csv]
  by (simp add: csv_lines_ragged data_rows_ragged sale_of_row_def)


section \<open>Properties of the data access layer\<close>

subsection \<open>getOrCreateToday\<close>



















section \<open>Properties of the importer\<close>

subsection \<open>Steps that return\<close>

lemma bnd_Inr:
  "bnd m f s = (Inr r, s') \<Longrightarrow> \<exists>x s1. m s = (Inr x, s1) \<and> f x s1 = (Inr r, s')"
  by (auto simp: bnd_def split: prod.splits sum.splits)

lemma reading_state: "reading q s = (r, s') \<Longrightarrow> s' = s"
  by (simp add: reading_def)

lemma run_Inr:
  assumes "run st s = (Inr r, s')"
  shows "\<exists>c d n rid. db s = Some c \<and> st (content c) = Inr (d, n, rid)
           \<and> db s' = Some (c\<lparr>content := d, rows_modified := n,
                               last_rowid := (case rid of None \<Rightarrow> last_rowid c | Some i \<Rightarrow> i)\<rparr>)
           \<and> lastInsertRowid r = (case rid of None \<Rightarrow> last_rowid c | Some i \<Rightarrow> i)
           \<and> idb_outcomes s' = tl (idb_outcomes s)"
proof (cases "db s")
  case None
  with assms show ?thesis by (simp add: run_uninit)
next
  case (Some c)
  show ?thesis
  proof (cases "st (content c)")
    case (Inl e)
    with Some assms show ?thesis by (simp add: run_fail)
  next
    case (Inr res)
    obtain d n rid where "res = (d, n, rid)" by (cases res)
    with Inr have st: "st (content c) = Inr (d, n, rid)" by simp
    from run_ok [of s c st d n rid] Some st obtain ok where
      "run st s =
         (if ok then Inr \<lparr>changes = n,
                          lastInsertRowid = (case rid of None \<Rightarrow> last_rowid c | Some r \<Rightarrow> r)\<rparr>
          else Inl IDBError,
          s\<lparr>db := Some (c\<lparr>content := d, rows_modified := n,
                           last_rowid := (case rid of None \<Rightarrow> last_rowid c | Some r \<Rightarrow> r)\<rparr>),
            dirty := \<not> ok,
            idb := (if ok then Some d else idb s),
            idb_outcomes := tl (idb_outcomes s),
            trace := trace s @ [MarkDirty, IdbPut d ok]\<rparr>)"
      by blast
    with assms Some st show ?thesis by (cases ok) auto
  qed
qed

lemma upsert_setting_lookup:
  "upsert_setting k v d = Inr (d', n, rid) \<Longrightarrow> select_setting k d' = Some v"
proof -
  have a: "k \<in> set (map fst xs) \<Longrightarrow>
      map_of (map (\<lambda>(k', v'). if k' = k then (k', v) else (k', v')) xs) k = Some v" for xs :: "(string \<times> string) list"
    by (induction xs) auto
  have b: "k \<notin> set (map fst xs) \<Longrightarrow> map_of (xs @ [(k, v)]) k = Some v" for xs :: "(string \<times> string) list"
    by (induction xs) auto
  assume "upsert_setting k v d = Inr (d', n, rid)"
  then show ?thesis
    using a [of "settings d"] b [of "settings d"]
    by (auto simp: upsert_setting_def select_setting_def map_add_def split: if_splits)
qed

lemma saveSetting_Inr:
  assumes "saveSetting k v s = (Inr u, s')"
  shows "getSetting k s' = (Inr (Some v), s')"
proof -
  from assms obtain r where "run (upsert_setting k v) s = (Inr r, s')"
    by (auto simp: saveSetting_def dest!: bnd_Inr)
  from run_Inr [OF this] obtain c d n rid where
    "upsert_setting k v (content c) = Inr (d, n, rid)"
    "db s' = Some (c\<lparr>content := d, rows_modified := n,
                     last_rowid := (case rid of None \<Rightarrow> last_rowid c | Some i \<Rightarrow> i)\<rparr>)"
    by blast
  then show ?thesis
    by (simp add: getSetting_def reading_def query_def upsert_setting_lookup)
qed

lemma isDone_state: "isDone s = (r, s') \<Longrightarrow> s' = s"
  by (auto simp: isDone_def bnd_def getSetting_def reading_def split: sum.splits)

lemma isDone_marker:
  "getSetting MIGRATION_DONE_KEY s = (Inr (Some ''1''), s) \<Longrightarrow> isDone s = (Inr True, s)"
  by (simp add: isDone_def bnd_def)

text \<open>Every normal return of \<^verbatim>\<open>Migrate.run\<close> is either the early one, which
  changes nothing, or comes right after \<^verbatim>\<open>saveSetting\<close> has stored the marker.\<close>

lemma migrate_run_Inr:
  assumes "migrate_run B store today s = (Inr r, s')"
  shows "(r = AlreadyDone \<and> s' = s \<and> isDone s = (Inr True, s))
         \<or> (r \<noteq> AlreadyDone \<and> isDone s = (Inr False, s)
              \<and> getSetting MIGRATION_DONE_KEY s' = (Inr (Some ''1''), s'))"
proof -
  from assms obtain done' s1 where d: "isDone s = (Inr done', s1)"
    and rest: "(if done' then (\<lambda>s. (Inr AlreadyDone, s))
       else
         (case store_keys store of
            None \<Rightarrow> bnd (saveSetting MIGRATION_DONE_KEY ''1'') (\<lambda>_ s. (Inr StoreNotFound, s))
          | Some allKeys \<Rightarrow>
              if allKeys = []
              then bnd (saveSetting MIGRATION_DONE_KEY ''1'') (\<lambda>_ s. (Inr StoreEmpty, s))
              else
                (let dailyKeys = sort (filter (\<lambda>k. startsWith k ''dailySales_'') allKeys);
                     chunkKeys = array_sort B (chunk_compare B)
                                   (filter (\<lambda>k. startsWith k ''salesChunk_'') allKeys)
                 in bnd (migrate_daily B store dailyKeys
                           \<lparr>migratedDays = 0, migratedSales = 0, skippedDays = 0\<rparr>) (\<lambda>cnt.
                      bnd (migrate_live B store today chunkKeys cnt) (\<lambda>cnt'.
                        bnd (saveSetting MIGRATION_DONE_KEY ''1'') (\<lambda>_ s.
                          (Inr (Summary (migratedDays cnt') (migratedSales cnt') (skippedDays cnt')),
                           s))))))) s1 = (Inr r, s')"
    unfolding migrate_run_def by (auto dest!: bnd_Inr)
  from d have s1: "s1 = s" by (rule isDone_state)
  show ?thesis
  proof (cases done')
    case True
    with d rest s1 show ?thesis by simp
  next
    case False
    with rest have "r \<noteq> AlreadyDone \<and> (\<exists>u s0. saveSetting MIGRATION_DONE_KEY ''1'' s0 = (Inr u, s'))"
      by (auto simp: Let_def dest!: bnd_Inr split: option.splits if_splits)
    with d s1 False show ?thesis by (auto dest: saveSetting_Inr)
  qed
qed

subsection \<open>Steps on an engine on which nothing of the environment fails\<close>

lemma bnd_step: "m s = (Inr x, s1) \<Longrightarrow> bnd m f s = f x s1"
  by (simp add: bnd_def)

lemma reading_ready: "db s = Some c \<Longrightarrow> reading q s = (Inr (q (content c)), s)"
  by (simp add: reading_def query_def)








text \<open>One round of the loop over the daily keys, case by case.\<close>

lemma migrate_daily_skip:
  assumes "db s = Some c"
    and "select_day_by_date (remove_first ''dailySales_'' key) (content c) = Some row"
  shows "migrate_daily B store (key # keys) cnt s =
           migrate_daily B store keys (cnt\<lparr>skippedDays := skippedDays cnt + 1\<rparr>) s"
  using assms by (simp add: Let_def getDay_def bnd_step [OF reading_ready])








subsection \<open>The import of the example store\<close>

lemma parseCSV_gapped:
  "parseCSV decimal_builtins gapped_csv =
     Some \<lparr>unitPrice = 1250, openingStock = 120,
           parsed_sales = [\<lparr>p_seq = 1, p_kg = 5, p_price = 6250, p_comments = ''Paid''\<rparr>,
                           \<lparr>p_seq = 3, p_kg = 2, p_price = 2500, p_comments = ''Paid''\<rparr>]\<rparr>"
proof -
  have "csv_lines gapped_csv =
      [''1,5,6250,Paid,1250,115.00'', ''2,0,0,,1250,115.00'', ''3,2,2500,Paid,1250,113.00'']"
    by (simp add: csv_lines_def gapped_csv_def js_trim_def is_space_def startsWith_def)
  then show ?thesis
    by (simp add: parseCSV_def parse_line_def dec_eval)
qed

lemma gapped_csv_not_empty: "gapped_csv \<noteq> []"
  by (simp add: gapped_csv_def)

lemmas engine_eval = bnd_def reading_def query_def run_def conn_run_def persist_def saveToIDB_def
  getDay_def getSetting_def saveSetting_def isDone_def MIGRATION_DONE_KEY_def Let_def
  select_setting_def select_day_by_date_def insert_or_ignore_day_def insert_sale_def
  upsert_setting_def next_rowid_def

lemma daily_import_of_old_store:
  "fst (migrate_daily decimal_builtins old_store [''dailySales_2026-03-01'']
          \<lparr>migratedDays = 0, migratedSales = 0, skippedDays = 0\<rparr> (warm_engine seed_image)) =
     Inr \<lparr>migratedDays = 1, migratedSales = 2, skippedDays = 0\<rparr>"
  by (simp add: engine_eval warm_engine_def open_db_def seed_image_def startsWith_def
      getItem_def old_store_def parseCSV_gapped gapped_csv_not_empty)

lemma decimal_builtins_sel:
  "parseInt decimal_builtins = dec_parseInt"
  "parseFloat decimal_builtins = dec_parseFloat"
  "array_sort decimal_builtins = stable_sort_by"
  by (simp_all add: decimal_builtins_def)

lemmas number_eval = dec_parseFloat_def dec_parseInt_def strip_sign_def
  is_space_def is_digit_def digits_val_def digit_val_def int_or_def num_or_def
  parseFloat_opt_def

lemma import_of_old_store:
  "fst (migrate_run decimal_builtins old_store ''2026-03-02'' (warm_engine seed_image)) =
     Inr (Summary 2 4 0)"
  "map_option content (db (snd (migrate_run decimal_builtins old_store ''2026-03-02''
     (warm_engine seed_image)))) = Some imported_image"
  "idb (snd (migrate_run decimal_builtins old_store ''2026-03-02'' (warm_engine seed_image))) =
     Some imported_image"
  by (simp_all add: migrate_run_def migrate_live_def stable_sort_by_def chunk_compare_def
      engine_eval warm_engine_def open_db_def seed_image_def startsWith_def
      getItem_def old_store_def parseCSV_gapped gapped_csv_not_empty imported_image_def
      chunk_rows_def gas_positive_def decimal_builtins_sel number_eval)

subsection \<open>The migration marker\<close>



subsection \<open>Running the importer again\<close>

text \<open>
  Claim C2. After any normal return of \<^verbatim>\<open>Migrate.run\<close> the marker is set, so a further
  call, on the same or on any other legacy data, returns \<open>{skipped: true}\<close> at once and
  leaves the whole state, hence every Day and Sale, as the first call left it. And within
  a run, a historical key whose date already has a Day row only adds one to
  \<open>skippedDays\<close>: the loop goes on with the remaining keys from the very same state.
\<close>

theorem second_run_skips:
  "(\<forall>r s1. migrate_run B store today s = (Inr r, s1) \<longrightarrow>
       migrate_run B' store' today' s1 = (Inr AlreadyDone, s1))
   \<and> (\<forall>c row. db s = Some c
         \<and> select_day_by_date (remove_first ''dailySales_'' key) (content c) = Some row \<longrightarrow>
         migrate_daily B store (key # keys) cnt s =
           migrate_daily B store keys (cnt\<lparr>skippedDays := skippedDays cnt + 1\<rparr>) s)"
proof (intro conjI allI impI)
  fix r s1
  assume "migrate_run B store today s = (Inr r, s1)"
  from migrate_run_Inr [OF this] have "isDone s1 = (Inr True, s1)"
    by (auto intro: isDone_marker)
  then show "migrate_run B' store' today' s1 = (Inr AlreadyDone, s1)"
    by (simp add: migrate_run_def bnd_step)
next
  fix c row
  assume "db s = Some c \<and> select_day_by_date (remove_first ''dailySales_'' key) (content c) = Some row"
  then have "db s = Some c"
    and "select_day_by_date (remove_first ''dailySales_'' key) (content c) = Some row"
    by simp_all
  then show "migrate_daily B store (key # keys) cnt s =
           migrate_daily B store keys (cnt\<lparr>skippedDays := skippedDays cnt + 1\<rparr>) s"
    by (rule migrate_daily_skip)
qed

theorem second_run_skips_witness:
  "fst (migrate_run decimal_builtins old_store ''2026-03-02'' (warm_engine seed_image)) =
     Inr (Summary 2 4 0)
   \<and> migrate_run decimal_builtins old_store ''2026-03-02''
       (snd (migrate_run decimal_builtins old_store ''2026-03-02'' (warm_engine seed_image))) =
     (Inr AlreadyDone,
      snd (migrate_run decimal_builtins old_store ''2026-03-02'' (warm_engine seed_image)))
   \<and> map_option content (db (snd (migrate_run decimal_builtins old_store ''2026-03-02''
       (snd (migrate_run decimal_builtins old_store ''2026-03-02'' (warm_engine seed_image)))))) =
     Some imported_image
   \<and> select_day_by_date (remove_first ''dailySales_'' ''dailySales_2026-03-01'') imported_image =
     Some \<lparr>d_id = 1, d_date = ''2026-03-01'', opening_stock = 120, unit_price = 1250\<rparr>
   \<and> migrate_daily decimal_builtins old_store [''dailySales_2026-03-01'']
       \<lparr>migratedDays = 0, migratedSales = 0, skippedDays = 0\<rparr> (warm_engine imported_image) =
     (Inr \<lparr>migratedDays = 0, migratedSales = 0, skippedDays = 1\<rparr>, warm_engine imported_image)"
proof -
  let ?run = "migrate_run decimal_builtins old_store ''2026-03-02'' (warm_engine seed_image)"
  have first: "?run = (Inr (Summary 2 4 0), snd ?run)"
    using import_of_old_store(1) by (simp add: prod_eq_iff)
  have day: "db (warm_engine imported_image) = Some (open_db imported_image)
     \<and> select_day_by_date (remove_first ''dailySales_'' ''dailySales_2026-03-01'')
          (content (open_db imported_image)) =
        Some \<lparr>d_id = 1, d_date = ''2026-03-01'', opening_stock = 120, unit_price = 1250\<rparr>"
    by (simp add: warm_engine_def open_db_def imported_image_def select_day_by_date_def
        startsWith_def)
  from second_run_skips [of decimal_builtins old_store "''2026-03-02''" "warm_engine seed_image"
      decimal_builtins old_store "''2026-03-02''"] first
  have again: "migrate_run decimal_builtins old_store ''2026-03-02'' (snd ?run) = (Inr AlreadyDone, snd ?run)"
    by blast
  from second_run_skips [of decimal_builtins old_store "''2026-03-02''" "warm_engine imported_image"
      decimal_builtins old_store "''2026-03-02''" "''dailySales_2026-03-01''" "[]"
      "\<lparr>migratedDays = 0, migratedSales = 0, skippedDays = 0\<rparr>"] day
  have "migrate_daily decimal_builtins old_store [''dailySales_2026-03-01'']
       \<lparr>migratedDays = 0, migratedSales = 0, skippedDays = 0\<rparr> (warm_engine imported_image) =
     (Inr \<lparr>migratedDays = 0, migratedSales = 0, skippedDays = 1\<rparr>, warm_engine imported_image)"
    by simp
  with again import_of_old_store day show ?thesis by (simp add: open_db_def)
qed


section \<open>Properties of the sequence numbers\<close>

subsection \<open>Sorting rows with distinct keys\<close>


subsection \<open>deleteSale\<close>

lemma reseq_row_ids [simp]:
  "s_id (reseq_row i rows r) = s_id r" "day_id (reseq_row i rows r) = day_id r"
  by (induction rows arbitrary: i r) auto









subsection \<open>Rows appended by run\<close>








subsection \<open>Density under appended rows\<close>





subsection \<open>The live chunks\<close>


subsection \<open>addSale\<close>





subsection \<open>The invariant\<close>











end
